theory Spec2Isabelle
  imports Main
begin

section \<open>The harvester command of kubefirst (cmd/harvester/command.go)\<close>

subsection \<open>Errors\<close>

text \<open>
  A Go \<open>error\<close> value is built here in two ways only: \<open>fmt.Errorf("msg")\<close> and
  \<open>fmt.Errorf("msg: %w", err)\<close>, which wraps \<open>err\<close>. A returned error is
  \<open>error option\<close>, with \<open>None\<close> for \<open>nil\<close>.
\<close>

datatype error = Errorf string | Wrapf string error

fun Error :: "error \<Rightarrow> string" where
  "Error (Errorf msg) = msg"
| "Error (Wrapf msg err) = msg @ '': '' @ Error err"

fun Unwrap :: "error \<Rightarrow> error option" where
  "Unwrap (Errorf msg) = None"
| "Unwrap (Wrapf msg err) = Some err"

subsection \<open>Configuration\<close>

text \<open>
  Modelled from the spec: the type of the flag values that \<open>utilities.GetFlags\<close>
  resolves, which is declared outside command.go (spec, Data model, ProvisionConfig:
  "cluster name, cloud provider tag, git provider/protocol, domain, catalog app list,
  vCluster environment names, halt-phase selector (optional)"). The fields kept are the
  three that \<open>Create\<close> reads (\<open>ClusterName\<close>, \<open>GitProvider\<close>,
  \<open>InstallCatalogApps\<close>) and the values of the flags \<open>git-protocol\<close> and
  \<open>stop-after\<close> that \<open>Create\<close> registers. A string flag that was not given
  holds its default; the default of \<open>stop-after\<close> is the empty string.
\<close>

record CliFlags =
  ClusterName :: string
  GitProvider :: string
  GitProtocol :: string
  InstallCatalogApps :: string
  StopAfter :: string

definition supportedGitProviders :: "string list" where
  "supportedGitProviders = [''github'', ''gitlab'']"

definition supportedGitProtocolOverride :: "string list" where
  "supportedGitProtocolOverride = [''https'', ''ssh'']"

text \<open>The defaults of the flags registered on the create command, for the fields above.\<close>

definition defaultFlags :: CliFlags where
  "defaultFlags =
     \<lparr>ClusterName = ''kubefirst'', GitProvider = ''github'', GitProtocol = ''ssh'',
      InstallCatalogApps = '''', StopAfter = ''''\<rparr>"

subsection \<open>Observable calls\<close>

text \<open>
  The calls on the step reporter (\<open>step.NewStepFactory\<close>), in the order they are made.
\<close>

datatype step_call =
    DisplayLogHints string int
  | NewProgressStep string
  | FailCurrentStep error
  | CompleteCurrentStep

text \<open>
  What happens inside \<open>ProvisionManagementCluster\<close>: calls on the step reporter it was
  given, and the run of a phase.
\<close>

datatype prov_event = Report step_call | RunPhase string

text \<open>
  Everything the command does that can be seen from outside, as a trace. The events of
  the provisioner are tagged, so that no behaviour of the provisioner can be mistaken for
  a call the command makes itself.
\<close>

datatype 'app event =
    Stepper step_call
  | CallGetFlags string
  | CallValidateCatalogApps string
  | CallValidateProvidedFlags string
  | NewClusterClient
  | NewProvisionWatcher string
  | NewProvisioner
  | CallProvisionManagementCluster CliFlags "'app list"
  | Provisioner prov_event

subsection \<open>The collaborators of the create command\<close>

text \<open>
  \<open>Create\<close> calls five functions that are declared outside command.go. They are
  parameters of the model: \<open>cmd.Context()\<close>, \<open>utilities.GetFlags(cmd, cloudProvider)\<close>,
  \<open>catalog.ValidateCatalogApps(ctx, apps)\<close> (three results: a flag, the apps, an error),
  \<open>ValidateProvidedFlags(gitProvider)\<close> and
  \<open>ProvisionManagementCluster(ctx, cliFlags, catalogApps)\<close>, which returns an error and,
  on the way, makes the calls listed in its first component.
\<close>

record ('cmd, 'ctx, 'app) deps =
  cmdContext :: "'cmd \<Rightarrow> 'ctx"
  getFlags :: "'cmd \<Rightarrow> string \<Rightarrow> error + CliFlags"
  validateCatalogApps :: "'ctx \<Rightarrow> string \<Rightarrow> error + bool \<times> 'app list"
  validateProvidedFlags :: "string \<Rightarrow> error option"
  provisionManagementCluster ::
    "'ctx \<Rightarrow> CliFlags \<Rightarrow> 'app list \<Rightarrow> prov_event list \<times> error option"

subsection \<open>The create command\<close>

text \<open>
  The \<open>RunE\<close> function of \<open>Create()\<close>: the trace of its calls and the error it returns.
\<close>

definition Create :: "('cmd, 'ctx, 'app) deps \<Rightarrow> 'cmd \<Rightarrow> 'app event list \<times> error option" where
  "Create d cmd =
    (let cloudProvider = ''harvester'';
         estimatedTimeMin = 25;
         ctx = cmdContext d cmd;
         t1 = [Stepper (DisplayLogHints cloudProvider estimatedTimeMin),
               Stepper (NewProgressStep ''Validate Configuration''),
               CallGetFlags cloudProvider]
     in case getFlags d cmd cloudProvider of
          Inl err \<Rightarrow>
            (let wrerr = Wrapf ''failed to get flags'' err
             in (t1 @ [Stepper (FailCurrentStep wrerr)], Some wrerr))
        | Inr cliFlags \<Rightarrow>
            (let t2 = t1 @ [CallValidateCatalogApps (InstallCatalogApps cliFlags)]
             in case validateCatalogApps d ctx (InstallCatalogApps cliFlags) of
                  Inl err \<Rightarrow>
                    (let wrerr = Wrapf ''validation of catalog apps failed'' err
                     in (t2 @ [Stepper (FailCurrentStep wrerr)], Some wrerr))
                | Inr (_, catalogApps) \<Rightarrow>
                    (let t3 = t2 @ [CallValidateProvidedFlags (GitProvider cliFlags)]
                     in case validateProvidedFlags d (GitProvider cliFlags) of
                          Some err \<Rightarrow>
                            (let wrerr = Wrapf ''provided flags validation failed'' err
                             in (t3 @ [Stepper (FailCurrentStep wrerr)], Some wrerr))
                        | None \<Rightarrow>
                            (let t4 = t3 @ [Stepper CompleteCurrentStep,
                                            NewClusterClient,
                                            NewProvisionWatcher (ClusterName cliFlags),
                                            NewProvisioner,
                                            CallProvisionManagementCluster cliFlags catalogApps];
                                 (evs, r) = provisionManagementCluster d ctx cliFlags catalogApps
                             in case r of
                                  Some err \<Rightarrow>
                                    (t4 @ map Provisioner evs,
                                     Some (Wrapf ''failed to create harvester management cluster'' err))
                                | None \<Rightarrow> (t4 @ map Provisioner evs, None)))))"

subsection \<open>The destroy and root-credentials commands\<close>

definition Destroy :: "'cmd \<Rightarrow> string list \<Rightarrow> 'app event list \<times> error option" where
  "Destroy cmd args = ([], Some (Errorf ''destroy command not yet implemented''))"

definition RootCredentials :: "'cmd \<Rightarrow> string list \<Rightarrow> 'app event list \<times> error option" where
  "RootCredentials cmd args = ([], Some (Errorf ''root-credentials command not yet implemented''))"

subsection \<open>Classes of events\<close>

text \<open>Flag retrieval and the two validations.\<close>

fun isValidationCall :: "'app event \<Rightarrow> bool" where
  "isValidationCall (CallGetFlags _) = True"
| "isValidationCall (CallValidateCatalogApps _) = True"
| "isValidationCall (CallValidateProvidedFlags _) = True"
| "isValidationCall _ = False"

text \<open>
  Everything from the construction of the Cluster Client on: the client, the watcher, the
  provisioner, the call of \<open>ProvisionManagementCluster\<close> and all it does.
\<close>

fun isProvisioningCall :: "'app event \<Rightarrow> bool" where
  "isProvisioningCall NewClusterClient = True"
| "isProvisioningCall (NewProvisionWatcher _) = True"
| "isProvisioningCall NewProvisioner = True"
| "isProvisioningCall (CallProvisionManagementCluster _ _) = True"
| "isProvisioningCall (Provisioner _) = True"
| "isProvisioningCall _ = False"

text \<open>The calls on the step reporter in a trace, the provisioner's among them.\<close>

fun reports :: "prov_event list \<Rightarrow> step_call list" where
  "reports [] = []"
| "reports (Report c # evs) = c # reports evs"
| "reports (RunPhase n # evs) = reports evs"

fun stepCalls :: "'app event list \<Rightarrow> step_call list" where
  "stepCalls [] = []"
| "stepCalls (Stepper c # es) = c # stepCalls es"
| "stepCalls (Provisioner (Report c) # es) = c # stepCalls es"
| "stepCalls (e # es) = stepCalls es"

text \<open>The calls on the step reporter that the command makes itself.\<close>

fun ownStepCalls :: "'app event list \<Rightarrow> step_call list" where
  "ownStepCalls [] = []"
| "ownStepCalls (Stepper c # es) = c # ownStepCalls es"
| "ownStepCalls (e # es) = ownStepCalls es"

text \<open>
  Strict alternation of the step reporter's calls, as an automaton with one bit of state,
  "a step is active": a step begins only when none is active, it is completed or failed
  only when one is, and none is active at the end. \<open>DisplayLogHints\<close> begins and ends
  no step.
\<close>

fun alternates :: "bool \<Rightarrow> step_call list \<Rightarrow> bool" where
  "alternates active [] = (\<not> active)"
| "alternates active (NewProgressStep n # cs) = (\<not> active \<and> alternates True cs)"
| "alternates active (CompleteCurrentStep # cs) = (active \<and> alternates False cs)"
| "alternates active (FailCurrentStep err # cs) = (active \<and> alternates False cs)"
| "alternates active (DisplayLogHints p m # cs) = alternates active cs"

text \<open>The first three events of every run of the create command.\<close>

definition validating :: "'app event list" where
  "validating = [Stepper (DisplayLogHints ''harvester'' 25),
                 Stepper (NewProgressStep ''Validate Configuration''),
                 CallGetFlags ''harvester'']"

section \<open>The parts of the program outside command.go\<close>

subsection \<open>ValidateProvidedFlags\<close>

text \<open>
  Modelled from the spec: \<open>ValidateProvidedFlags\<close>, a function of package harvester
  that is not in command.go, which only calls it with the git provider. The spec
  (Component design, configuration validation): "git provider is one of the supported set
  {github, gitlab}". The set is \<open>supportedGitProviders\<close> of command.go; the text of the
  error is not given by the spec.
\<close>

definition ValidateProvidedFlags :: "string \<Rightarrow> error option" where
  "ValidateProvidedFlags gitProvider =
     (if gitProvider \<in> set supportedGitProviders then None
      else Some (Errorf ''unsupported git provider''))"

subsection \<open>The provisioner\<close>

text \<open>
  Modelled from the spec: the Phase Registry and \<open>ProvisionManagementCluster\<close> of
  package provision, which command.go only calls.

  A phase (spec, Data model) has a name and "a run function taking (context,
  ProvisionConfig, ClusterHandle) and producing (success | failure-with-cause)".
\<close>

datatype outcome = Succeeded | Failed error

record ('ctx, 'h) Phase =
  Name :: string
  Run :: "'ctx \<Rightarrow> CliFlags \<Rightarrow> 'h \<Rightarrow> outcome"

text \<open>
  Modelled from the spec: the loop of \<open>ProvisionManagementCluster\<close> over the phases
  (spec, Provisioner). "For each phase in registry order: emit started; invoke the
  phase's run function with the shared context and cluster handle; on success emit
  completed and advance to the next phase; on failure emit failed(cause), transition to
  Failed, and return the wrapped cause to the caller: no further phases execute. After a
  phase completes, if its name equals the configured halt-phase, transition to
  HaltedAtCheckpoint and return success immediately, skipping all remaining phases."
  A phase failure is "wrapped with the phase's identity and the underlying cause".
  The three events are the step reporter's begin-step, complete-step and fail-step.
\<close>

fun runPhases ::
  "('ctx, 'h) Phase list \<Rightarrow> 'ctx \<Rightarrow> CliFlags \<Rightarrow> 'h \<Rightarrow> prov_event list \<times> error option" where
  "runPhases [] ctx config h = ([], None)"
| "runPhases (p # ps) ctx config h =
     (case Run p ctx config h of
        Failed cause \<Rightarrow>
          ([Report (NewProgressStep (Name p)), RunPhase (Name p), Report (FailCurrentStep cause)],
           Some (Wrapf (Name p) cause))
      | Succeeded \<Rightarrow>
          (if StopAfter config \<noteq> '''' \<and> Name p = StopAfter config
           then ([Report (NewProgressStep (Name p)), RunPhase (Name p), Report CompleteCurrentStep],
                 None)
           else (case runPhases ps ctx config h of
                   (evs, r) \<Rightarrow>
                     (Report (NewProgressStep (Name p)) # RunPhase (Name p)
                        # Report CompleteCurrentStep # evs, r))))"

text \<open>
  Modelled from the spec: \<open>ProvisionManagementCluster\<close> of package provision. The
  spec (Data model): "halt-phase, if set, must name a phase present in the Phase
  Registry; validated before any phase executes", and (External interfaces)
  \<open>ProvisionManagementCluster\<close> returns "non-nil ... on any phase failure or invalid
  configuration". The registry and the cluster handle belong to the provisioner that
  \<open>NewProvisioner\<close> builds; the catalog apps are handed to the phases with the
  configuration and play no part in the sequencing.
\<close>

definition ProvisionManagementCluster ::
  "('ctx, 'h) Phase list \<Rightarrow> 'h \<Rightarrow> 'ctx \<Rightarrow> CliFlags \<Rightarrow> 'app list
     \<Rightarrow> prov_event list \<times> error option" where
  "ProvisionManagementCluster registry h ctx config catalogApps =
     (if StopAfter config \<noteq> '''' \<and> StopAfter config \<notin> set (map Name registry)
      then ([], Some (Errorf ''stop-after does not name a registered phase''))
      else runPhases registry ctx config h)"

text \<open>The phases run by the provisioner, in a trace of the command.\<close>

fun phasesRun :: "'app event list \<Rightarrow> string list" where
  "phasesRun [] = []"
| "phasesRun (Provisioner (RunPhase n) # es) = n # phasesRun es"
| "phasesRun (e # es) = phasesRun es"

subsection \<open>A complete command\<close>

text \<open>
  The names that the flag \<open>stop-after\<close> documents ("halt provisioning after phase:
  argocd|ingress|vcluster|vault"), as a registry of phases with fixed outcomes.
\<close>

definition stopAfterPhases :: "string list" where
  "stopAfterPhases = [''argocd'', ''ingress'', ''vcluster'', ''vault'']"

definition phase :: "string \<Rightarrow> outcome \<Rightarrow> (unit, unit) Phase" where
  "phase n out = \<lparr>Name = n, Run = (\<lambda>ctx config h. out)\<rparr>"

definition healthy :: "(unit, unit) Phase list" where
  "healthy = map (\<lambda>n. phase n Succeeded) stopAfterPhases"

definition ingressDown :: "(unit, unit) Phase list" where
  "ingressDown = [phase ''argocd'' Succeeded, phase ''ingress'' (Failed (Errorf ''port-forward refused'')),
                  phase ''vcluster'' Succeeded, phase ''vault'' Succeeded]"

text \<open>
  The create command with the modelled \<open>ValidateProvidedFlags\<close> in place, over any
  provisioner, with the results of flag retrieval and of catalog validation given; and
  the same with the modelled provisioner over a registry.
\<close>

definition wiredTo ::
  "(unit \<Rightarrow> CliFlags \<Rightarrow> string list \<Rightarrow> prov_event list \<times> error option)
     \<Rightarrow> error + CliFlags \<Rightarrow> error + bool \<times> string list \<Rightarrow> (unit, unit, string) deps" where
  "wiredTo pm flags catalog =
     \<lparr>cmdContext = (\<lambda>cmd. ()),
      getFlags = (\<lambda>cmd cloudProvider. flags),
      validateCatalogApps = (\<lambda>ctx apps. catalog),
      validateProvidedFlags = ValidateProvidedFlags,
      provisionManagementCluster = pm\<rparr>"

definition wired ::
  "(unit, unit) Phase list \<Rightarrow> error + CliFlags \<Rightarrow> error + bool \<times> string list
     \<Rightarrow> (unit, unit, string) deps" where
  "wired registry flags catalog = wiredTo (ProvisionManagementCluster registry ()) flags catalog"

section \<open>The shape of a run\<close>

lemma Create_getFlags_failed:
  assumes "getFlags d cmd ''harvester'' = Inl err"
  shows "Create d cmd =
           (validating @ [Stepper (FailCurrentStep (Wrapf ''failed to get flags'' err))],
            Some (Wrapf ''failed to get flags'' err))"
  using assms by (simp add: Create_def validating_def Let_def)

lemma Create_catalog_failed:
  assumes "getFlags d cmd ''harvester'' = Inr f"
    and "validateCatalogApps d (cmdContext d cmd) (InstallCatalogApps f) = Inl err"
  shows "Create d cmd =
           (validating @ [CallValidateCatalogApps (InstallCatalogApps f),
                          Stepper (FailCurrentStep (Wrapf ''validation of catalog apps failed'' err))],
            Some (Wrapf ''validation of catalog apps failed'' err))"
  using assms by (simp add: Create_def validating_def Let_def)

lemma Create_provided_failed:
  assumes "getFlags d cmd ''harvester'' = Inr f"
    and "validateCatalogApps d (cmdContext d cmd) (InstallCatalogApps f) = Inr (b, apps)"
    and "validateProvidedFlags d (GitProvider f) = Some err"
  shows "Create d cmd =
           (validating @ [CallValidateCatalogApps (InstallCatalogApps f),
                          CallValidateProvidedFlags (GitProvider f),
                          Stepper (FailCurrentStep (Wrapf ''provided flags validation failed'' err))],
            Some (Wrapf ''provided flags validation failed'' err))"
  using assms by (simp add: Create_def validating_def Let_def)

lemma Create_provisioned:
  assumes "getFlags d cmd ''harvester'' = Inr f"
    and "validateCatalogApps d (cmdContext d cmd) (InstallCatalogApps f) = Inr (b, apps)"
    and "validateProvidedFlags d (GitProvider f) = None"
  shows "Create d cmd =
           (validating @ [CallValidateCatalogApps (InstallCatalogApps f),
                          CallValidateProvidedFlags (GitProvider f),
                          Stepper CompleteCurrentStep,
                          NewClusterClient,
                          NewProvisionWatcher (ClusterName f),
                          NewProvisioner,
                          CallProvisionManagementCluster f apps]
              @ map Provisioner (fst (provisionManagementCluster d (cmdContext d cmd) f apps)),
            map_option (Wrapf ''failed to create harvester management cluster'')
              (snd (provisionManagementCluster d (cmdContext d cmd) f apps)))"
  using assms
  by (simp add: Create_def validating_def Let_def split: prod.splits option.splits)

lemma Create_cases [case_names getFlags catalog provided provisioned]:
  obtains
    err where "getFlags d cmd ''harvester'' = Inl err"
  | f err where "getFlags d cmd ''harvester'' = Inr f"
      "validateCatalogApps d (cmdContext d cmd) (InstallCatalogApps f) = Inl err"
  | f b apps err where "getFlags d cmd ''harvester'' = Inr f"
      "validateCatalogApps d (cmdContext d cmd) (InstallCatalogApps f) = Inr (b, apps)"
      "validateProvidedFlags d (GitProvider f) = Some err"
  | f b apps where "getFlags d cmd ''harvester'' = Inr f"
      "validateCatalogApps d (cmdContext d cmd) (InstallCatalogApps f) = Inr (b, apps)"
      "validateProvidedFlags d (GitProvider f) = None"
proof (cases "getFlags d cmd ''harvester''")
  case (Inl err)
  then show ?thesis using that(1) by blast
next
  case (Inr f)
  show ?thesis
  proof (cases "validateCatalogApps d (cmdContext d cmd) (InstallCatalogApps f)")
    case (Inl err)
    with Inr show ?thesis using that(2) by blast
  next
    case r: (Inr p)
    obtain b apps where p: "p = (b, apps)" by (cases p)
    show ?thesis
    proof (cases "validateProvidedFlags d (GitProvider f)")
      case None
      with Inr r p show ?thesis using that(4) by blast
    next
      case (Some err)
      with Inr r p show ?thesis using that(3) by blast
    qed
  qed
qed

lemma Create_called_provisioner:
  assumes "CallProvisionManagementCluster f apps \<in> set (fst (Create d cmd))"
  shows "\<exists>b. getFlags d cmd ''harvester'' = Inr f
           \<and> validateCatalogApps d (cmdContext d cmd) (InstallCatalogApps f) = Inr (b, apps)
           \<and> validateProvidedFlags d (GitProvider f) = None"
proof (cases d cmd rule: Create_cases)
  case (provisioned f' b apps')
  with assms have "f' = f \<and> apps' = apps"
    by (auto simp add: Create_provisioned [OF provisioned] validating_def)
  with provisioned show ?thesis by blast
qed (use assms in \<open>auto simp add: Create_getFlags_failed Create_catalog_failed
       Create_provided_failed validating_def\<close>)

subsection \<open>Projections of a trace\<close>

lemma stepCalls_append: "stepCalls (xs @ ys) = stepCalls xs @ stepCalls ys"
  by (induction xs rule: stepCalls.induct) simp_all

lemma stepCalls_Provisioner: "stepCalls (map Provisioner evs) = reports evs"
  by (induction evs rule: reports.induct) simp_all

lemma ownStepCalls_append: "ownStepCalls (xs @ ys) = ownStepCalls xs @ ownStepCalls ys"
  by (induction xs rule: ownStepCalls.induct) simp_all

lemma ownStepCalls_Provisioner: "ownStepCalls (map Provisioner evs) = []"
  by (induction evs) simp_all

lemma phasesRun_append: "phasesRun (xs @ ys) = phasesRun xs @ phasesRun ys"
  by (induction xs rule: phasesRun.induct) simp_all

lemma phasesRun_Provisioner: "phasesRun (map Provisioner evs) = [n. RunPhase n \<leftarrow> evs]"
  by (induction evs rule: reports.induct) simp_all

subsection \<open>The modelled validator and provisioner\<close>

lemma ValidateProvidedFlags_iff:
  "ValidateProvidedFlags gp = None \<longleftrightarrow> gp = ''github'' \<or> gp = ''gitlab''"
  by (simp add: ValidateProvidedFlags_def supportedGitProviders_def)

lemma runPhases_alternates: "alternates False (reports (fst (runPhases ps ctx config h)))"
  by (induction ps) (auto split: outcome.splits prod.splits)

lemma ProvisionManagementCluster_alternates:
  "alternates False (reports (fst (ProvisionManagementCluster registry h ctx config apps)))"
  by (simp add: ProvisionManagementCluster_def runPhases_alternates)

text \<open>
  When the phases before phase \<open>k\<close> succeed, none of them is the halt phase, and phase
  \<open>k\<close> fails, the run is made of the phases up to \<open>k\<close> and returns the cause wrapped
  with the name of phase \<open>k\<close>.
\<close>

lemma runPhases_fails_at:
  assumes "k < length ps"
    and "\<forall>i<k. Run (ps ! i) ctx config h = Succeeded"
    and "StopAfter config = '''' \<or> StopAfter config \<notin> set (map Name (take k ps))"
    and "Run (ps ! k) ctx config h = Failed cause"
  shows "[n. RunPhase n \<leftarrow> fst (runPhases ps ctx config h)] = map Name (take (Suc k) ps)
       \<and> snd (runPhases ps ctx config h) = Some (Wrapf (Name (ps ! k)) cause)"
  using assms
proof (induction ps arbitrary: k)
  case Nil
  then show ?case by simp
next
  case (Cons p ps)
  show ?case
  proof (cases k)
    case 0
    with Cons.prems show ?thesis by simp
  next
    case (Suc j)
    from Cons.prems Suc have j: "j < length ps" by simp
    from Cons.prems Suc have ok: "Run p ctx config h = Succeeded" by auto
    from Cons.prems Suc have before: "\<forall>i<j. Run (ps ! i) ctx config h = Succeeded" by auto
    from Cons.prems Suc have halt: "StopAfter config = '''' \<or> Name p \<noteq> StopAfter config"
      and halt': "StopAfter config = '''' \<or> StopAfter config \<notin> set (map Name (take j ps))"
      by auto
    from Cons.prems Suc have fails: "Run (ps ! j) ctx config h = Failed cause" by simp
    from Cons.IH [OF j before halt' fails] ok halt Suc show ?thesis
      by (auto split: prod.splits)
  qed
qed

subsection \<open>Runs of the complete command\<close>

lemma wiredTo_simps:
  "cmdContext (wiredTo pm flags catalog) cmd = ()"
  "getFlags (wiredTo pm flags catalog) cmd p = flags"
  "validateCatalogApps (wiredTo pm flags catalog) ctx a = catalog"
  "validateProvidedFlags (wiredTo pm flags catalog) = ValidateProvidedFlags"
  "provisionManagementCluster (wiredTo pm flags catalog) = pm"
  by (simp_all add: wiredTo_def)

lemma wired_simps:
  "cmdContext (wired registry flags catalog) cmd = ()"
  "getFlags (wired registry flags catalog) cmd p = flags"
  "validateCatalogApps (wired registry flags catalog) ctx a = catalog"
  "validateProvidedFlags (wired registry flags catalog) = ValidateProvidedFlags"
  "provisionManagementCluster (wired registry flags catalog) = ProvisionManagementCluster registry ()"
  by (simp_all add: wired_def wiredTo_def)

lemma wired_provisioner:
  "(wired registry flags catalog)\<lparr>provisionManagementCluster := ProvisionManagementCluster registry ()\<rparr>
     = wired registry flags catalog"
  by (simp add: wired_def wiredTo_def)

lemma wired_validator:
  "(wired registry flags catalog)\<lparr>validateProvidedFlags := ValidateProvidedFlags\<rparr>
     = wired registry flags catalog"
  by (simp add: wired_def wiredTo_def)

lemma Create_wiredTo:
  assumes "GitProvider f = ''github'' \<or> GitProvider f = ''gitlab''"
  shows "Create (wiredTo pm (Inr f) (Inr (b, apps))) () =
           (validating @ [CallValidateCatalogApps (InstallCatalogApps f),
                          CallValidateProvidedFlags (GitProvider f),
                          Stepper CompleteCurrentStep,
                          NewClusterClient,
                          NewProvisionWatcher (ClusterName f),
                          NewProvisioner,
                          CallProvisionManagementCluster f apps]
              @ map Provisioner (fst (pm () f apps)),
            map_option (Wrapf ''failed to create harvester management cluster'')
              (snd (pm () f apps)))"
proof -
  let ?d = "wiredTo pm (Inr f) (Inr (b, apps))"
  have "Create ?d () =
      (validating @ [CallValidateCatalogApps (InstallCatalogApps f),
                     CallValidateProvidedFlags (GitProvider f),
                     Stepper CompleteCurrentStep, NewClusterClient,
                     NewProvisionWatcher (ClusterName f), NewProvisioner,
                     CallProvisionManagementCluster f apps]
         @ map Provisioner (fst (provisionManagementCluster ?d (cmdContext ?d ()) f apps)),
       map_option (Wrapf ''failed to create harvester management cluster'')
         (snd (provisionManagementCluster ?d (cmdContext ?d ()) f apps)))"
    by (rule Create_provisioned [where b = b])
       (use assms in \<open>simp_all add: wiredTo_simps ValidateProvidedFlags_iff\<close>)
  then show ?thesis by (simp add: wiredTo_simps)
qed

lemma Create_wired:
  assumes "GitProvider f = ''github'' \<or> GitProvider f = ''gitlab''"
  shows "Create (wired registry (Inr f) (Inr (b, apps))) () =
           (validating @ [CallValidateCatalogApps (InstallCatalogApps f),
                          CallValidateProvidedFlags (GitProvider f),
                          Stepper CompleteCurrentStep,
                          NewClusterClient,
                          NewProvisionWatcher (ClusterName f),
                          NewProvisioner,
                          CallProvisionManagementCluster f apps]
              @ map Provisioner (fst (ProvisionManagementCluster registry () () f apps)),
            map_option (Wrapf ''failed to create harvester management cluster'')
              (snd (ProvisionManagementCluster registry () () f apps)))"
  unfolding wired_def by (rule Create_wiredTo [OF assms])

lemma Names_healthy: "map Name healthy = stopAfterPhases"
  by (simp add: healthy_def phase_def stopAfterPhases_def)

lemma runPhases_healthy:
  "StopAfter config = '''' \<Longrightarrow> runPhases healthy ctx config h =
     ([Report (NewProgressStep ''argocd''), RunPhase ''argocd'', Report CompleteCurrentStep,
       Report (NewProgressStep ''ingress''), RunPhase ''ingress'', Report CompleteCurrentStep,
       Report (NewProgressStep ''vcluster''), RunPhase ''vcluster'', Report CompleteCurrentStep,
       Report (NewProgressStep ''vault''), RunPhase ''vault'', Report CompleteCurrentStep], None)"
  by (simp add: healthy_def stopAfterPhases_def phase_def)

lemma runPhases_ingressDown:
  "StopAfter config = '''' \<Longrightarrow> runPhases ingressDown ctx config h =
     ([Report (NewProgressStep ''argocd''), RunPhase ''argocd'', Report CompleteCurrentStep,
       Report (NewProgressStep ''ingress''), RunPhase ''ingress'',
       Report (FailCurrentStep (Errorf ''port-forward refused''))],
      Some (Wrapf ''ingress'' (Errorf ''port-forward refused'')))"
  by (simp add: ingressDown_def phase_def)

lemma ProvisionManagementCluster_ingressDown:
  "ProvisionManagementCluster ingressDown h ctx defaultFlags apps =
     ([Report (NewProgressStep ''argocd''), RunPhase ''argocd'', Report CompleteCurrentStep,
       Report (NewProgressStep ''ingress''), RunPhase ''ingress'',
       Report (FailCurrentStep (Errorf ''port-forward refused''))],
      Some (Wrapf ''ingress'' (Errorf ''port-forward refused'')))"
  by (simp add: ProvisionManagementCluster_def runPhases_ingressDown defaultFlags_def)

section \<open>Properties\<close>

subsection \<open>What the create command returns\<close>

text \<open>
  C1. The create command returns nil exactly when it has called
  \<open>ProvisionManagementCluster\<close> and that call has returned nil; and when that call has
  returned an error, the command returns this error wrapped with the message "failed to
  create harvester management cluster".
\<close>

theorem Create_nil_iff_provisioner_nil:
  "(snd (Create d cmd) = None \<longleftrightarrow>
      (\<exists>f apps. CallProvisionManagementCluster f apps \<in> set (fst (Create d cmd))
         \<and> snd (provisionManagementCluster d (cmdContext d cmd) f apps) = None))
   \<and> (\<forall>f apps err. CallProvisionManagementCluster f apps \<in> set (fst (Create d cmd))
         \<and> snd (provisionManagementCluster d (cmdContext d cmd) f apps) = Some err
        \<longrightarrow> snd (Create d cmd) = Some (Wrapf ''failed to create harvester management cluster'' err)
            \<and> Unwrap (Wrapf ''failed to create harvester management cluster'' err) = Some err
            \<and> Error (Wrapf ''failed to create harvester management cluster'' err)
                = ''failed to create harvester management cluster: '' @ Error err)"
proof (cases d cmd rule: Create_cases)
  case (provisioned f b apps)
  have "CallProvisionManagementCluster f' apps' \<in> set (fst (Create d cmd))
          \<longleftrightarrow> f' = f \<and> apps' = apps" for f' apps'
    by (auto simp add: Create_provisioned [OF provisioned] validating_def)
  then show ?thesis
    by (simp add: Create_provisioned [OF provisioned])
qed (auto simp add: Create_getFlags_failed Create_catalog_failed Create_provided_failed validating_def)

theorem Create_nil_iff_provisioner_nil_witness:
  "CallProvisionManagementCluster defaultFlags []
     \<in> set (fst (Create (wired ingressDown (Inr defaultFlags) (Inr (True, []))) ()))
   \<and> snd (ProvisionManagementCluster ingressDown () () defaultFlags ([] :: string list))
       = Some (Wrapf ''ingress'' (Errorf ''port-forward refused''))
   \<and> snd (Create (wired ingressDown (Inr defaultFlags) (Inr (True, []))) ())
       = Some (Wrapf ''failed to create harvester management cluster''
                 (Wrapf ''ingress'' (Errorf ''port-forward refused'')))"
proof -
  let ?d = "wired ingressDown (Inr defaultFlags) (Inr (True, []))"
  have g: "GitProvider defaultFlags = ''github'' \<or> GitProvider defaultFlags = ''gitlab''"
    by (simp add: defaultFlags_def)
  have h1: "CallProvisionManagementCluster defaultFlags [] \<in> set (fst (Create ?d ()))"
    by (simp add: Create_wired [OF g])
  have h2: "snd (provisionManagementCluster ?d (cmdContext ?d ()) defaultFlags [])
              = Some (Wrapf ''ingress'' (Errorf ''port-forward refused''))"
    by (simp add: wired_simps ProvisionManagementCluster_ingressDown)
  from Create_nil_iff_provisioner_nil [of ?d "()"] h1 h2
  have "snd (Create ?d ()) = Some (Wrapf ''failed to create harvester management cluster''
                                     (Wrapf ''ingress'' (Errorf ''port-forward refused'')))"
    by blast
  with h1 h2 show ?thesis by (simp add: wired_simps)
qed

text \<open>
  C2. When flag retrieval, the validation of the catalog apps or the validation of the git
  provider fails, the create command returns a non-nil error, and its trace has no
  provisioning event: no Cluster Client, no watcher, no Provisioner, no call of
  \<open>ProvisionManagementCluster\<close> and nothing done by it.
\<close>

theorem validation_failure_skips_provisioning:
  assumes "(\<exists>e. getFlags d cmd ''harvester'' = Inl e)
         \<or> (\<exists>f e. getFlags d cmd ''harvester'' = Inr f
                 \<and> validateCatalogApps d (cmdContext d cmd) (InstallCatalogApps f) = Inl e)
         \<or> (\<exists>f e. getFlags d cmd ''harvester'' = Inr f
                 \<and> validateProvidedFlags d (GitProvider f) = Some e)"
  shows "snd (Create d cmd) \<noteq> None
       \<and> filter isProvisioningCall (fst (Create d cmd)) = []"
proof (cases d cmd rule: Create_cases)
  case (provisioned f b apps)
  with assms show ?thesis by auto
qed (simp_all add: Create_getFlags_failed Create_catalog_failed Create_provided_failed validating_def)

theorem validation_failure_skips_provisioning_witness:
  "snd (Create (wired healthy (Inr defaultFlags) (Inl (Errorf ''catalog app not found''))) ()) \<noteq> None
   \<and> filter isProvisioningCall
       (fst (Create (wired healthy (Inr defaultFlags) (Inl (Errorf ''catalog app not found''))) ())) = []"
proof -
  let ?d = "wired healthy (Inr defaultFlags) (Inl (Errorf ''catalog app not found''))"
  have h: "(\<exists>e. getFlags ?d () ''harvester'' = Inl e)
         \<or> (\<exists>f e. getFlags ?d () ''harvester'' = Inr f
                 \<and> validateCatalogApps ?d (cmdContext ?d ()) (InstallCatalogApps f) = Inl e)
         \<or> (\<exists>f e. getFlags ?d () ''harvester'' = Inr f
                 \<and> validateProvidedFlags ?d (GitProvider f) = Some e)"
    by (simp add: wired_simps)
  from validation_failure_skips_provisioning [OF h] show ?thesis .
qed



text \<open>
  C10. Every run of the create command begins with \<open>DisplayLogHints\<close> for the cloud
  provider "harvester" and 25 minutes, then the progress step "Validate Configuration":
  these two calls are all that precedes the first retrieval or validation call, which is
  \<open>GetFlags\<close>, whatever the collaborators return.
\<close>

theorem Create_begins_with_log_hints_and_validation_step:
  "takeWhile (\<lambda>e. \<not> isValidationCall e) (fst (Create d cmd))
     = [Stepper (DisplayLogHints ''harvester'' 25),
        Stepper (NewProgressStep ''Validate Configuration'')]
   \<and> take 3 (fst (Create d cmd))
     = [Stepper (DisplayLogHints ''harvester'' 25),
        Stepper (NewProgressStep ''Validate Configuration''),
        CallGetFlags ''harvester'']"
  by (cases d cmd rule: Create_cases)
     (simp_all add: Create_getFlags_failed Create_catalog_failed Create_provided_failed
        Create_provisioned validating_def)

subsection \<open>The step reporter\<close>

text \<open>
  C5. In every run of the create command the calls on the step reporter alternate
  strictly: a step is begun only when none is active, completed or failed only when one
  is, and none is left active when the command returns. This holds of the whole sequence,
  the calls of \<open>ProvisionManagementCluster\<close> on the same reporter included, for the
  provisioner modelled above over any registry, and whatever the other collaborators
  return. On the code of \<open>Create\<close> alone: its own calls alternate on every path, and
  with an arbitrary provisioner the whole sequence alternates exactly when the
  provisioner's calls do, because \<open>Create\<close> makes no call on the reporter after
  \<open>ProvisionManagementCluster\<close> has returned.
\<close>

theorem step_calls_alternate:
  fixes d :: "('cmd, 'ctx, 'app) deps"
  shows "alternates False
     (stepCalls (fst (Create (d\<lparr>provisionManagementCluster := ProvisionManagementCluster registry h\<rparr>) cmd)))
   \<and> alternates False (ownStepCalls (fst (Create d cmd)))
   \<and> (alternates False (stepCalls (fst (Create d cmd))) \<longleftrightarrow>
        (\<forall>f apps. CallProvisionManagementCluster f apps \<in> set (fst (Create d cmd)) \<longrightarrow>
           alternates False
             (reports (fst (provisionManagementCluster d (cmdContext d cmd) f apps)))))"
proof -
  have general: "alternates False (ownStepCalls (fst (Create e cmd)))
     \<and> (alternates False (stepCalls (fst (Create e cmd))) \<longleftrightarrow>
          (\<forall>f apps. CallProvisionManagementCluster f apps \<in> set (fst (Create e cmd)) \<longrightarrow>
             alternates False
               (reports (fst (provisionManagementCluster e (cmdContext e cmd) f apps)))))"
    for e :: "('cmd, 'ctx, 'app) deps"
  proof (cases e cmd rule: Create_cases)
    case (provisioned f b apps)
    have "CallProvisionManagementCluster f' apps' \<in> set (fst (Create e cmd))
            \<longleftrightarrow> f' = f \<and> apps' = apps" for f' apps'
      by (auto simp add: Create_provisioned [OF provisioned] validating_def)
    then show ?thesis
      by (simp add: Create_provisioned [OF provisioned] validating_def
          stepCalls_append stepCalls_Provisioner ownStepCalls_append ownStepCalls_Provisioner)
  qed (simp_all add: Create_getFlags_failed Create_catalog_failed Create_provided_failed
         validating_def)
  let ?d = "d\<lparr>provisionManagementCluster := ProvisionManagementCluster registry h\<rparr>"
  have "alternates False (stepCalls (fst (Create ?d cmd)))"
    using general [of ?d] by (simp add: ProvisionManagementCluster_alternates)
  with general [of d] show ?thesis by blast
qed

theorem step_calls_alternate_witness:
  "stepCalls (fst (Create (wired ingressDown (Inr defaultFlags) (Inr (True, []))) ()))
     = [DisplayLogHints ''harvester'' 25,
        NewProgressStep ''Validate Configuration'', CompleteCurrentStep,
        NewProgressStep ''argocd'', CompleteCurrentStep,
        NewProgressStep ''ingress'', FailCurrentStep (Errorf ''port-forward refused'')]
   \<and> alternates False
       (stepCalls (fst (Create (wired ingressDown (Inr defaultFlags) (Inr (True, []))) ())))"
proof -
  let ?d = "wired ingressDown (Inr defaultFlags) (Inr (True, []))"
  have g: "GitProvider defaultFlags = ''github'' \<or> GitProvider defaultFlags = ''gitlab''"
    by (simp add: defaultFlags_def)
  have calls: "stepCalls (fst (Create ?d ()))
     = [DisplayLogHints ''harvester'' 25,
        NewProgressStep ''Validate Configuration'', CompleteCurrentStep,
        NewProgressStep ''argocd'', CompleteCurrentStep,
        NewProgressStep ''ingress'', FailCurrentStep (Errorf ''port-forward refused'')]"
    by (simp add: Create_wired [OF g] ProvisionManagementCluster_ingressDown validating_def)
  have h: "\<forall>f apps. CallProvisionManagementCluster f apps \<in> set (fst (Create ?d ())) \<longrightarrow>
             alternates False (reports (fst (provisionManagementCluster ?d (cmdContext ?d ()) f apps)))"
    by (simp add: wired_simps ProvisionManagementCluster_alternates)
  from step_calls_alternate [where d = ?d and cmd = "()" and registry = ingressDown and h = "()"] h
  have "alternates False (stepCalls (fst (Create ?d ())))" by blast
  with calls show ?thesis by simp
qed

subsection \<open>The provisioner\<close>

text \<open>
  C3. Let the create command call \<open>ProvisionManagementCluster\<close>, over a registry of
  phases, with a valid halt phase. When the phases before phase \<open>k\<close> succeed without
  reaching the halt phase and phase \<open>k\<close> fails, the phases that run are those up to
  \<open>k\<close> and no other, the error returned to the create command is the cause wrapped with
  the name of phase \<open>k\<close>, and the command returns it wrapped once more.
\<close>

theorem failing_phase_stops_provisioning:
  assumes "CallProvisionManagementCluster config apps
             \<in> set (fst (Create (d\<lparr>provisionManagementCluster := ProvisionManagementCluster registry h\<rparr>) cmd))"
    and "StopAfter config = '''' \<or> StopAfter config \<in> set (map Name registry)"
    and "k < length registry"
    and "\<forall>i<k. Run (registry ! i) (cmdContext d cmd) config h = Succeeded"
    and "StopAfter config = '''' \<or> StopAfter config \<notin> set (map Name (take k registry))"
    and "Run (registry ! k) (cmdContext d cmd) config h = Failed cause"
  shows "phasesRun (fst (Create (d\<lparr>provisionManagementCluster := ProvisionManagementCluster registry h\<rparr>) cmd))
           = map Name (take (Suc k) registry)
       \<and> snd (ProvisionManagementCluster registry h (cmdContext d cmd) config apps)
           = Some (Wrapf (Name (registry ! k)) cause)
       \<and> snd (Create (d\<lparr>provisionManagementCluster := ProvisionManagementCluster registry h\<rparr>) cmd)
           = Some (Wrapf ''failed to create harvester management cluster''
                     (Wrapf (Name (registry ! k)) cause))"
proof -
  let ?d = "d\<lparr>provisionManagementCluster := ProvisionManagementCluster registry h\<rparr>"
  from Create_called_provisioner [OF assms(1)] obtain b where
    v: "getFlags ?d cmd ''harvester'' = Inr config"
      "validateCatalogApps ?d (cmdContext ?d cmd) (InstallCatalogApps config) = Inr (b, apps)"
      "validateProvidedFlags ?d (GitProvider config) = None"
    by blast
  have run: "ProvisionManagementCluster registry h (cmdContext d cmd) config apps
               = runPhases registry (cmdContext d cmd) config h"
    using assms(2) by (auto simp add: ProvisionManagementCluster_def)
  note r = runPhases_fails_at [OF assms(3) assms(4) assms(5) assms(6)]
  show ?thesis
    using r
    by (simp add: Create_provisioned [OF v] run phasesRun_append phasesRun_Provisioner
        validating_def)
qed

theorem failing_phase_stops_provisioning_witness:
  "phasesRun (fst (Create (wired ingressDown (Inr defaultFlags) (Inr (True, []))) ()))
     = [''argocd'', ''ingress'']
   \<and> snd (Create (wired ingressDown (Inr defaultFlags) (Inr (True, []))) ())
     = Some (Wrapf ''failed to create harvester management cluster''
               (Wrapf ''ingress'' (Errorf ''port-forward refused'')))"
proof -
  let ?d = "wired ingressDown (Inr defaultFlags) (Inr (True, []))"
  have g: "GitProvider defaultFlags = ''github'' \<or> GitProvider defaultFlags = ''gitlab''"
    by (simp add: defaultFlags_def)
  have h1: "CallProvisionManagementCluster defaultFlags []
              \<in> set (fst (Create (?d\<lparr>provisionManagementCluster := ProvisionManagementCluster ingressDown ()\<rparr>) ()))"
    unfolding wired_provisioner by (simp add: Create_wired [OF g])
  have h2: "StopAfter defaultFlags = '''' \<or> StopAfter defaultFlags \<in> set (map Name ingressDown)"
    by (simp add: defaultFlags_def)
  have h3: "Suc 0 < length ingressDown" by (simp add: ingressDown_def)
  have h4: "\<forall>i<Suc 0. Run (ingressDown ! i) (cmdContext ?d ()) defaultFlags () = Succeeded"
    by (simp add: ingressDown_def phase_def)
  have h5: "StopAfter defaultFlags = ''''
              \<or> StopAfter defaultFlags \<notin> set (map Name (take (Suc 0) ingressDown))"
    by (simp add: defaultFlags_def)
  have h6: "Run (ingressDown ! Suc 0) (cmdContext ?d ()) defaultFlags ()
              = Failed (Errorf ''port-forward refused'')"
    by (simp add: ingressDown_def phase_def)
  from failing_phase_stops_provisioning [OF h1 h2 h3 h4 h5 h6] show ?thesis
    unfolding wired_provisioner by (simp add: ingressDown_def phase_def)
qed

text \<open>
  C6. When the value of \<open>stop-after\<close> is not empty and names no phase of the registry,
  \<open>ProvisionManagementCluster\<close> returns an error without running a phase or beginning a
  step, and so the create command returns an error, no phase has run, and the only calls
  on the step reporter are the command's own. With the registry of the four documented
  names, these are the values other than argocd, ingress, vcluster and vault.
\<close>

theorem unregistered_stop_after_rejected:
  assumes "getFlags d cmd ''harvester'' = Inr config"
    and "StopAfter config \<noteq> ''''"
    and "StopAfter config \<notin> set (map Name registry)"
  shows "fst (ProvisionManagementCluster registry h ctx config apps) = []
       \<and> snd (ProvisionManagementCluster registry h ctx config apps) \<noteq> None
       \<and> snd (Create (d\<lparr>provisionManagementCluster := ProvisionManagementCluster registry h\<rparr>) cmd) \<noteq> None
       \<and> phasesRun (fst (Create (d\<lparr>provisionManagementCluster := ProvisionManagementCluster registry h\<rparr>) cmd)) = []
       \<and> stepCalls (fst (Create (d\<lparr>provisionManagementCluster := ProvisionManagementCluster registry h\<rparr>) cmd))
           = ownStepCalls (fst (Create (d\<lparr>provisionManagementCluster := ProvisionManagementCluster registry h\<rparr>) cmd))"
proof -
  let ?d = "d\<lparr>provisionManagementCluster := ProvisionManagementCluster registry h\<rparr>"
  have pm: "ProvisionManagementCluster registry h c config a
              = ([], Some (Errorf ''stop-after does not name a registered phase''))" for c a
    using assms(2,3) by (simp add: ProvisionManagementCluster_def)
  show ?thesis
  proof (cases ?d cmd rule: Create_cases)
    case (provisioned f b apps')
    with assms(1) have "f = config" by simp
    with provisioned show ?thesis
      by (simp add: Create_provisioned [OF provisioned] pm validating_def)
  qed (simp_all add: Create_getFlags_failed Create_catalog_failed Create_provided_failed
         validating_def pm)
qed

theorem unregistered_stop_after_rejected_witness:
  "map Name healthy = [''argocd'', ''ingress'', ''vcluster'', ''vault'']
   \<and> StopAfter (defaultFlags\<lparr>StopAfter := ''bogus''\<rparr>)
       \<notin> {''argocd'', ''ingress'', ''vcluster'', ''vault''}
   \<and> snd (Create (wired healthy (Inr (defaultFlags\<lparr>StopAfter := ''bogus''\<rparr>)) (Inr (True, []))) ())
       \<noteq> None
   \<and> phasesRun
       (fst (Create (wired healthy (Inr (defaultFlags\<lparr>StopAfter := ''bogus''\<rparr>)) (Inr (True, []))) ()))
       = []"
proof -
  let ?f = "defaultFlags\<lparr>StopAfter := ''bogus''\<rparr>"
  let ?d = "wired healthy (Inr ?f) (Inr (True, []))"
  have h1: "getFlags ?d () ''harvester'' = Inr ?f" by (simp add: wired_simps)
  have h2: "StopAfter ?f \<noteq> ''''" by simp
  have h3: "StopAfter ?f \<notin> set (map Name healthy)"
    by (simp add: Names_healthy stopAfterPhases_def)
  from unregistered_stop_after_rejected
         [OF h1 h2 h3, where h = "()" and ctx = "()" and apps = "[]::string list"]
  show ?thesis
    unfolding wired_provisioner by (simp add: Names_healthy stopAfterPhases_def)
qed

subsection \<open>The validation of the flags\<close>

text \<open>
  C7. \<open>ValidateProvidedFlags\<close> accepts a git provider exactly when it is github or
  gitlab, and the create command follows it both ways. When the git provider that flag
  retrieval yields is neither, the command returns an error and its trace has no
  provisioning event; if the catalog apps were valid, the error is the one of
  \<open>ValidateProvidedFlags\<close>, wrapped with "provided flags validation failed" and passed
  to \<open>FailCurrentStep\<close>. When it is github or gitlab and the catalog apps are valid, the
  step "Validate Configuration" is completed, no step is failed,
  \<open>ProvisionManagementCluster\<close> is called with the flags, and the command returns what
  that call returns (wrapped, when it is an error).
\<close>

theorem git_provider_accepted_iff_supported:
  "(ValidateProvidedFlags gitProvider = None \<longleftrightarrow> gitProvider \<in> {''github'', ''gitlab''})
   \<and> (getFlags d cmd ''harvester'' = Inr f \<and> GitProvider f \<notin> {''github'', ''gitlab''} \<longrightarrow>
        snd (Create (d\<lparr>validateProvidedFlags := ValidateProvidedFlags\<rparr>) cmd) \<noteq> None
        \<and> filter isProvisioningCall
            (fst (Create (d\<lparr>validateProvidedFlags := ValidateProvidedFlags\<rparr>) cmd)) = [])
   \<and> (getFlags d cmd ''harvester'' = Inr f
        \<and> validateCatalogApps d (cmdContext d cmd) (InstallCatalogApps f) = Inr (b, apps)
        \<and> GitProvider f \<notin> {''github'', ''gitlab''} \<longrightarrow>
        (\<exists>err. ValidateProvidedFlags (GitProvider f) = Some err
           \<and> snd (Create (d\<lparr>validateProvidedFlags := ValidateProvidedFlags\<rparr>) cmd)
               = Some (Wrapf ''provided flags validation failed'' err)
           \<and> last (fst (Create (d\<lparr>validateProvidedFlags := ValidateProvidedFlags\<rparr>) cmd))
               = Stepper (FailCurrentStep (Wrapf ''provided flags validation failed'' err))))
   \<and> (getFlags d cmd ''harvester'' = Inr f
        \<and> validateCatalogApps d (cmdContext d cmd) (InstallCatalogApps f) = Inr (b, apps)
        \<and> GitProvider f \<in> {''github'', ''gitlab''} \<longrightarrow>
        fst (Create (d\<lparr>validateProvidedFlags := ValidateProvidedFlags\<rparr>) cmd)
          = [Stepper (DisplayLogHints ''harvester'' 25),
             Stepper (NewProgressStep ''Validate Configuration''),
             CallGetFlags ''harvester'',
             CallValidateCatalogApps (InstallCatalogApps f),
             CallValidateProvidedFlags (GitProvider f),
             Stepper CompleteCurrentStep,
             NewClusterClient,
             NewProvisionWatcher (ClusterName f),
             NewProvisioner,
             CallProvisionManagementCluster f apps]
            @ map Provisioner (fst (provisionManagementCluster d (cmdContext d cmd) f apps))
        \<and> snd (Create (d\<lparr>validateProvidedFlags := ValidateProvidedFlags\<rparr>) cmd)
          = map_option (Wrapf ''failed to create harvester management cluster'')
              (snd (provisionManagementCluster d (cmdContext d cmd) f apps)))"
proof -
  let ?d = "d\<lparr>validateProvidedFlags := ValidateProvidedFlags\<rparr>"
  have rejected: "snd (Create ?d cmd) \<noteq> None \<and> filter isProvisioningCall (fst (Create ?d cmd)) = []"
    if g: "getFlags d cmd ''harvester'' = Inr f" and n: "GitProvider f \<notin> {''github'', ''gitlab''}"
  proof (cases ?d cmd rule: Create_cases)
    case (provisioned f' b apps)
    with g have "f' = f" by simp
    with provisioned(3) n show ?thesis by (simp add: ValidateProvidedFlags_iff)
  qed (simp_all add: Create_getFlags_failed Create_catalog_failed Create_provided_failed
         validating_def)
  have failed: "\<exists>err. ValidateProvidedFlags (GitProvider f) = Some err
           \<and> snd (Create ?d cmd) = Some (Wrapf ''provided flags validation failed'' err)
           \<and> last (fst (Create ?d cmd))
               = Stepper (FailCurrentStep (Wrapf ''provided flags validation failed'' err))"
    if g: "getFlags d cmd ''harvester'' = Inr f"
      and c: "validateCatalogApps d (cmdContext d cmd) (InstallCatalogApps f) = Inr (b, apps)"
      and n: "GitProvider f \<notin> {''github'', ''gitlab''}"
  proof -
    from n obtain err where e: "ValidateProvidedFlags (GitProvider f) = Some err"
      by (auto simp add: ValidateProvidedFlags_def supportedGitProviders_def)
    have g': "getFlags ?d cmd ''harvester'' = Inr f" using g by simp
    have c': "validateCatalogApps ?d (cmdContext ?d cmd) (InstallCatalogApps f) = Inr (b, apps)"
      using c by simp
    have e': "validateProvidedFlags ?d (GitProvider f) = Some err" using e by simp
    show ?thesis
      using e by (simp add: Create_provided_failed [OF g' c' e'])
  qed
  have accepted: "fst (Create ?d cmd)
          = [Stepper (DisplayLogHints ''harvester'' 25),
             Stepper (NewProgressStep ''Validate Configuration''),
             CallGetFlags ''harvester'',
             CallValidateCatalogApps (InstallCatalogApps f),
             CallValidateProvidedFlags (GitProvider f),
             Stepper CompleteCurrentStep,
             NewClusterClient,
             NewProvisionWatcher (ClusterName f),
             NewProvisioner,
             CallProvisionManagementCluster f apps]
            @ map Provisioner (fst (provisionManagementCluster d (cmdContext d cmd) f apps))
        \<and> snd (Create ?d cmd)
          = map_option (Wrapf ''failed to create harvester management cluster'')
              (snd (provisionManagementCluster d (cmdContext d cmd) f apps))"
    if g: "getFlags d cmd ''harvester'' = Inr f"
      and c: "validateCatalogApps d (cmdContext d cmd) (InstallCatalogApps f) = Inr (b, apps)"
      and y: "GitProvider f \<in> {''github'', ''gitlab''}"
  proof -
    have g': "getFlags ?d cmd ''harvester'' = Inr f" using g by simp
    have c': "validateCatalogApps ?d (cmdContext ?d cmd) (InstallCatalogApps f) = Inr (b, apps)"
      using c by simp
    have v': "validateProvidedFlags ?d (GitProvider f) = None"
      using y by (simp add: ValidateProvidedFlags_iff)
    show ?thesis
      by (simp add: Create_provisioned [OF g' c' v'] validating_def)
  qed
  have iff: "ValidateProvidedFlags gitProvider = None \<longleftrightarrow> gitProvider \<in> {''github'', ''gitlab''}"
    by (simp add: ValidateProvidedFlags_iff)
  from iff rejected failed accepted show ?thesis by blast
qed

theorem git_provider_accepted_iff_supported_witness:
  "GitProvider (defaultFlags\<lparr>GitProvider := ''bitbucket''\<rparr>) \<notin> {''github'', ''gitlab''}
   \<and> snd (Create (wired healthy (Inr (defaultFlags\<lparr>GitProvider := ''bitbucket''\<rparr>)) (Inr (True, []))) ())
       = Some (Wrapf ''provided flags validation failed'' (Errorf ''unsupported git provider''))
   \<and> filter isProvisioningCall
       (fst (Create (wired healthy (Inr (defaultFlags\<lparr>GitProvider := ''bitbucket''\<rparr>)) (Inr (True, []))) ()))
       = []
   \<and> GitProvider (defaultFlags\<lparr>GitProvider := ''gitlab''\<rparr>) \<in> {''github'', ''gitlab''}
   \<and> Stepper CompleteCurrentStep
       \<in> set (fst (Create (wired healthy (Inr (defaultFlags\<lparr>GitProvider := ''gitlab''\<rparr>)) (Inr (True, []))) ()))
   \<and> CallProvisionManagementCluster (defaultFlags\<lparr>GitProvider := ''gitlab''\<rparr>) []
       \<in> set (fst (Create (wired healthy (Inr (defaultFlags\<lparr>GitProvider := ''gitlab''\<rparr>)) (Inr (True, []))) ()))
   \<and> snd (Create (wired healthy (Inr (defaultFlags\<lparr>GitProvider := ''gitlab''\<rparr>)) (Inr (True, []))) ())
       = None"
proof -
  let ?bad = "defaultFlags\<lparr>GitProvider := ''bitbucket''\<rparr>"
  let ?good = "defaultFlags\<lparr>GitProvider := ''gitlab''\<rparr>"
  let ?db = "wired healthy (Inr ?bad) (Inr (True, []))"
  let ?dg = "wired healthy (Inr ?good) (Inr (True, []))"
  have hb: "getFlags ?db () ''harvester'' = Inr ?bad
            \<and> validateCatalogApps ?db (cmdContext ?db ()) (InstallCatalogApps ?bad) = Inr (True, [])
            \<and> GitProvider ?bad \<notin> {''github'', ''gitlab''}"
    by (simp add: wired_simps)
  have hg: "getFlags ?dg () ''harvester'' = Inr ?good
            \<and> validateCatalogApps ?dg (cmdContext ?dg ()) (InstallCatalogApps ?good) = Inr (True, [])
            \<and> GitProvider ?good \<in> {''github'', ''gitlab''}"
    by (simp add: wired_simps)
  have st: "StopAfter ?good = ''''" by (simp add: defaultFlags_def)
  have pm: "provisionManagementCluster ?dg (cmdContext ?dg ()) ?good []
              = runPhases healthy () ?good ()"
    by (simp add: wired_simps ProvisionManagementCluster_def st)
  from git_provider_accepted_iff_supported [of "''bitbucket''" ?db "()" ?bad True "[]"] hb
  have bad: "snd (Create ?db ()) = Some (Wrapf ''provided flags validation failed''
                                           (Errorf ''unsupported git provider''))
             \<and> filter isProvisioningCall (fst (Create ?db ())) = []"
    unfolding wired_validator
    by (auto simp add: ValidateProvidedFlags_def supportedGitProviders_def)
  from git_provider_accepted_iff_supported [of "''gitlab''" ?dg "()" ?good True "[]"] hg
  have good: "Stepper CompleteCurrentStep \<in> set (fst (Create ?dg ()))
              \<and> CallProvisionManagementCluster ?good [] \<in> set (fst (Create ?dg ()))
              \<and> snd (Create ?dg ()) = None"
    unfolding wired_validator pm runPhases_healthy [OF st]
    by simp
  from bad good show ?thesis by simp
qed

text \<open>
  C8. A git protocol outside \<open>supportedGitProtocolOverride\<close> is not rejected by the
  validation of the create command: \<open>Create\<close> hands only the git provider to
  \<open>ValidateProvidedFlags\<close> and only the catalog apps to \<open>ValidateCatalogApps\<close>. With
  the other flags at their defaults, whatever the git protocol that flag retrieval yields
  and whatever the provisioner does, the step "Validate Configuration" is completed, the
  Cluster Client, the watcher and the Provisioner are built, and
  \<open>ProvisionManagementCluster\<close> is called with that protocol. For "ftp", which is not a
  supported protocol, and phases that all succeed, the command returns nil.
\<close>

theorem git_protocol_not_validated:
  "fst (Create (wiredTo pm (Inr (defaultFlags\<lparr>GitProtocol := protocol\<rparr>)) (Inr (True, []))) ())
     = [Stepper (DisplayLogHints ''harvester'' 25),
        Stepper (NewProgressStep ''Validate Configuration''),
        CallGetFlags ''harvester'',
        CallValidateCatalogApps '''',
        CallValidateProvidedFlags ''github'',
        Stepper CompleteCurrentStep,
        NewClusterClient,
        NewProvisionWatcher ''kubefirst'',
        NewProvisioner,
        CallProvisionManagementCluster (defaultFlags\<lparr>GitProtocol := protocol\<rparr>) []]
       @ map Provisioner (fst (pm () (defaultFlags\<lparr>GitProtocol := protocol\<rparr>) []))
   \<and> snd (Create (wiredTo pm (Inr (defaultFlags\<lparr>GitProtocol := protocol\<rparr>)) (Inr (True, []))) ())
     = map_option (Wrapf ''failed to create harvester management cluster'')
         (snd (pm () (defaultFlags\<lparr>GitProtocol := protocol\<rparr>) []))
   \<and> ''ftp'' \<notin> set supportedGitProtocolOverride
   \<and> CallProvisionManagementCluster (defaultFlags\<lparr>GitProtocol := ''ftp''\<rparr>) []
       \<in> set (fst (Create (wired healthy (Inr (defaultFlags\<lparr>GitProtocol := ''ftp''\<rparr>)) (Inr (True, []))) ()))
   \<and> snd (Create (wired healthy (Inr (defaultFlags\<lparr>GitProtocol := ''ftp''\<rparr>)) (Inr (True, []))) ())
       = None"
proof -
  let ?f = "defaultFlags\<lparr>GitProtocol := protocol\<rparr>"
  let ?ftp = "defaultFlags\<lparr>GitProtocol := ''ftp''\<rparr>"
  have g: "GitProvider (defaultFlags\<lparr>GitProtocol := p\<rparr>) = ''github''
             \<or> GitProvider (defaultFlags\<lparr>GitProtocol := p\<rparr>) = ''gitlab''" for p
    by (simp add: defaultFlags_def)
  have general: "Create (wiredTo pm (Inr ?f) (Inr (True, []))) () =
      ([Stepper (DisplayLogHints ''harvester'' 25),
        Stepper (NewProgressStep ''Validate Configuration''),
        CallGetFlags ''harvester'',
        CallValidateCatalogApps '''',
        CallValidateProvidedFlags ''github'',
        Stepper CompleteCurrentStep,
        NewClusterClient,
        NewProvisionWatcher ''kubefirst'',
        NewProvisioner,
        CallProvisionManagementCluster ?f []]
         @ map Provisioner (fst (pm () ?f [])),
       map_option (Wrapf ''failed to create harvester management cluster'') (snd (pm () ?f [])))"
    unfolding Create_wiredTo [OF g] by (simp add: validating_def defaultFlags_def)
  have st: "StopAfter ?ftp = ''''" by (simp add: defaultFlags_def)
  have pm: "ProvisionManagementCluster healthy () () ?ftp ([] :: string list)
              = runPhases healthy () ?ftp ()"
    by (simp add: ProvisionManagementCluster_def st)
  have ftp: "CallProvisionManagementCluster ?ftp []
               \<in> set (fst (Create (wired healthy (Inr ?ftp) (Inr (True, []))) ()))
             \<and> snd (Create (wired healthy (Inr ?ftp) (Inr (True, []))) ()) = None"
    unfolding Create_wired [OF g] pm runPhases_healthy [OF st] by simp
  show ?thesis
    using ftp by (simp add: general supportedGitProtocolOverride_def)
qed

subsection \<open>The commands that are not implemented\<close>

text \<open>
  C9. The destroy and root-credentials commands do nothing (the trace is empty) and
  return a non-nil error, whose messages are "destroy command not yet implemented" and
  "root-credentials command not yet implemented", whatever the command and arguments.
\<close>

theorem stubs_not_implemented:
  "Destroy cmd args = ([], Some (Errorf ''destroy command not yet implemented''))
   \<and> RootCredentials cmd args' = ([], Some (Errorf ''root-credentials command not yet implemented''))
   \<and> snd (Destroy cmd args) \<noteq> None
   \<and> snd (RootCredentials cmd args') \<noteq> None
   \<and> map_option Error (snd (Destroy cmd args)) = Some ''destroy command not yet implemented''
   \<and> map_option Error (snd (RootCredentials cmd args'))
       = Some ''root-credentials command not yet implemented''"
  by (simp add: Destroy_def RootCredentials_def)

end
